theory Spec2Isabelle
  imports Main "HOL-Library.Word" "HOL-Library.Sublist"
begin

section \<open>Object identifiers\<close>

text \<open>
  The router parses every path identifier with \<open>bson.ObjectId\<close> and turns stored
  identifiers back into text with \<open>str\<close>. The class belongs to the store's driver, not to
  this repository; it is modelled by its documented contract: an ObjectId is a 12-byte
  value, written as 24 hexadecimal digits; \<open>ObjectId(s)\<close> accepts a string of exactly 24
  hexadecimal digits (either case) and raises \<open>InvalidId\<close> on any other string;
  \<open>str\<close> prints the 24 digits in lower case.
\<close>

type_synonym oid = "96 word"

datatype exn =
    InvalidId
  | KeyError
  | TypeError
  | ValueError
  | DuplicateKeyError
  | HTTPException nat

definition hex_val :: "char \<Rightarrow> nat option" where
  "hex_val c =
     (let n = (of_char c :: nat)
      in if 48 \<le> n \<and> n \<le> 57 then Some (n - 48)
         else if 97 \<le> n \<and> n \<le> 102 then Some (n - 87)
         else if 65 \<le> n \<and> n \<le> 70 then Some (n - 55)
         else None)"

definition hex_digit :: "nat \<Rightarrow> char" where
  "hex_digit n = ''0123456789abcdef'' ! n"

fun from_hex :: "nat \<Rightarrow> string \<Rightarrow> nat option" where
  "from_hex acc [] = Some acc"
| "from_hex acc (c # cs) =
     (case hex_val c of None \<Rightarrow> None | Some v \<Rightarrow> from_hex (16 * acc + v) cs)"

fun to_hex :: "nat \<Rightarrow> nat \<Rightarrow> string" where
  "to_hex 0 n = []"
| "to_hex (Suc k) n = to_hex k (n div 16) @ [hex_digit (n mod 16)]"

definition ObjectId :: "string \<Rightarrow> exn + oid" where
  "ObjectId s =
     (if length s = 24
      then (case from_hex 0 s of None \<Rightarrow> Inl InvalidId | Some n \<Rightarrow> Inr (of_nat n))
      else Inl InvalidId)"

definition str :: "oid \<Rightarrow> string" where
  "str w = to_hex 24 (unat w)"

section \<open>Documents and collections\<close>

text \<open>
  A stored document is a dictionary with the store's \<open>_id\<close> and named fields. The
  identifier is kept apart from the other fields (\<open>doc_id\<close>): every stored document has
  one, and the router replaces it by its string form in every document it returns, so a
  returned document is a \<open>string doc\<close>. Field values are those of the data model: text,
  null, or a collection of identifier strings. A collection is the list of its documents
  in the store's natural order.
\<close>

datatype val = Null | Str string | StrList "string list"

record 'i doc =
  doc_id :: 'i
  doc_fields :: "string \<rightharpoonup> val"

record store =
  department_collection :: "oid doc list"
  employee_collection :: "oid doc list"
  benefit_collection :: "oid doc list"

definition str_id :: "oid doc \<Rightarrow> string doc" where
  \<comment> \<open>\<open>d["_id"] = str(d["_id"])\<close>\<close>
  "str_id d = \<lparr>doc_id = str (doc_id d), doc_fields = doc_fields d\<rparr>"

text \<open>
  The store operations the router calls, on lists. A filter \<open>{"_id": oid}\<close> selects by
  identifier; a filter \<open>{field: s}\<close> with a string \<open>s\<close> selects the documents whose field
  is the string \<open>s\<close> or a collection that contains \<open>s\<close> (the store's equality match).
  \<open>insert_one\<close> receives the identifier the driver generated for the new document and
  fails on a duplicate. An update with \<open>$set\<close> overwrites the named fields and leaves the
  others (an empty \<open>$set\<close> changes nothing); \<open>update_one\<close> and \<open>delete_one\<close> act
  on the first document that matches and return the matched or deleted count;
  \<open>update_many\<close> counts a document as modified when its field changed. The store is
  taken to answer every call: a failure of the connection is not modelled.
\<close>

definition find_one :: "'i doc list \<Rightarrow> 'i \<Rightarrow> 'i doc option" where
  "find_one coll i = find (\<lambda>d. doc_id d = i) coll"

definition insert_one :: "'i doc list \<Rightarrow> 'i doc \<Rightarrow> exn + 'i doc list" where
  "insert_one coll d =
     (if doc_id d \<in> doc_id ` set coll then Inl DuplicateKeyError else Inr (coll @ [d]))"

definition set_fields :: "(string \<rightharpoonup> val) \<Rightarrow> 'i doc \<Rightarrow> 'i doc" where
  "set_fields upd d = d\<lparr>doc_fields := doc_fields d ++ upd\<rparr>"

fun update_one :: "'i doc list \<Rightarrow> 'i \<Rightarrow> (string \<rightharpoonup> val) \<Rightarrow> nat \<times> 'i doc list" where
  "update_one [] i upd = (0, [])"
| "update_one (d # ds) i upd =
     (if doc_id d = i then (1, set_fields upd d # ds)
      else (case update_one ds i upd of (matched, ds') \<Rightarrow> (matched, d # ds')))"

fun delete_one :: "'i doc list \<Rightarrow> 'i \<Rightarrow> nat \<times> 'i doc list" where
  "delete_one [] i = (0, [])"
| "delete_one (d # ds) i =
     (if doc_id d = i then (1, ds)
      else (case delete_one ds i of (deleted, ds') \<Rightarrow> (deleted, d # ds')))"

definition field_eq :: "string \<Rightarrow> string \<Rightarrow> 'i doc \<Rightarrow> bool" where
  "field_eq k s d =
     (case doc_fields d k of
        Some (Str t) \<Rightarrow> t = s
      | Some (StrList ts) \<Rightarrow> s \<in> set ts
      | _ \<Rightarrow> False)"

fun update_many :: "'i doc list \<Rightarrow> ('i doc \<Rightarrow> bool) \<Rightarrow> string \<Rightarrow> val \<Rightarrow> nat \<times> 'i doc list" where
  \<comment> \<open>\<open>update_many(filter, {"$set": {k: v}})\<close>: the modified count and the new collection\<close>
  "update_many [] flt k v = (0, [])"
| "update_many (d # ds) flt k v =
     (case update_many ds flt k v of (modified, ds') \<Rightarrow>
        if flt d
        then ((if doc_fields d k = Some v then 0 else 1) + modified, set_fields [k \<mapsto> v] d # ds')
        else (modified, d # ds'))"

section \<open>Request models and exception handlers\<close>

text \<open>
  Modelled from the spec: \<open>DepartmentCreate\<close> (\<open>app/models/Department.py\<close>), the request
  body of create and update, is a partial field set over \<open>name\<close>, \<open>location\<close>,
  \<open>manager_id\<close> and \<open>employee_ids\<close>; \<open>model_dump(exclude_unset=True)\<close> is the dictionary
  of the fields the caller supplied, unset fields being omitted.
\<close>

record DepartmentCreate =
  name :: "val option"
  location :: "val option"
  manager_id :: "val option"
  employee_ids :: "val option"

definition model_dump :: "DepartmentCreate \<Rightarrow> (string \<rightharpoonup> val)" where
  "model_dump m = (\<lambda>k.
     if k = ''name'' then name m
     else if k = ''location'' then location m
     else if k = ''manager_id'' then manager_id m
     else if k = ''employee_ids'' then employee_ids m
     else None)"

text \<open>
  The two handler shapes of the router. \<open>HTTPException\<close> is an \<open>Exception\<close>, so the
  clause \<open>except Exception\<close> also receives an \<open>HTTPException\<close> raised inside the
  \<open>try\<close> block and replaces it by status 500. Only the status code is kept.
\<close>

fun except_Exception :: "exn + 'a \<Rightarrow> exn + 'a" where
  "except_Exception (Inl e) = Inl (HTTPException 500)"
| "except_Exception (Inr v) = Inr v"

fun except_InvalidId_Exception :: "exn + 'a \<Rightarrow> exn + 'a" where
  "except_InvalidId_Exception (Inl InvalidId) = Inl (HTTPException 400)"
| "except_InvalidId_Exception (Inl e) = Inl (HTTPException 500)"
| "except_InvalidId_Exception (Inr v) = Inr v"

section \<open>The handlers\<close>

record delete_response =
  detail :: string
  employees_updated :: nat

definition create_department :: "oid \<Rightarrow> DepartmentCreate \<Rightarrow> store \<Rightarrow> (exn + string doc) \<times> store" where
  \<comment> \<open>\<open>inserted_id\<close> is the identifier the driver generates for the new document\<close>
  "create_department inserted_id department st =
     (let department_dict = model_dump department
      in case insert_one (department_collection st) \<lparr>doc_id = inserted_id, doc_fields = department_dict\<rparr> of
           Inl e \<Rightarrow> (except_Exception (Inl e), st)
         | Inr coll \<Rightarrow>
             (let st' = st\<lparr>department_collection := coll\<rparr>
              in case find_one coll inserted_id of
                   Some created \<Rightarrow> (except_Exception (Inr (str_id created)), st')
                 | None \<Rightarrow> (except_Exception (Inl (HTTPException 500)), st')))"

definition get_department :: "string \<Rightarrow> store \<Rightarrow> exn + string doc" where
  "get_department department_id st =
     except_InvalidId_Exception
       (case ObjectId department_id of
          Inl e \<Rightarrow> Inl e
        | Inr oid \<Rightarrow>
            (case find_one (department_collection st) oid of
               None \<Rightarrow> Inl (HTTPException 404)
             | Some department \<Rightarrow> Inr (str_id department)))"

definition update_department ::
    "string \<Rightarrow> DepartmentCreate \<Rightarrow> store \<Rightarrow> (exn + string doc) \<times> store" where
  "update_department department_id update_data st =
     (case ObjectId department_id of
        Inl e \<Rightarrow> (except_InvalidId_Exception (Inl e), st)
      | Inr oid \<Rightarrow>
          (let update = model_dump update_data
           in case update_one (department_collection st) oid update of (matched_count, coll) \<Rightarrow>
             (let st' = st\<lparr>department_collection := coll\<rparr>
              in if matched_count = 0
                 then (except_InvalidId_Exception (Inl (HTTPException 404)), st')
                 else (case find_one coll oid of
                         None \<Rightarrow> (except_InvalidId_Exception (Inl TypeError), st')
                       | Some updated \<Rightarrow> (except_InvalidId_Exception (Inr (str_id updated)), st')))))"

definition delete_department :: "string \<Rightarrow> store \<Rightarrow> (exn + delete_response) \<times> store" where
  "delete_department department_id st =
     (case ObjectId department_id of
        Inl e \<Rightarrow> (except_InvalidId_Exception (Inl e), st)
      | Inr oid \<Rightarrow>
          (case update_many (employee_collection st)
                  (field_eq ''department_id'' department_id) ''department_id'' Null of
             (modified_count, emps) \<Rightarrow>
               (let st1 = st\<lparr>employee_collection := emps\<rparr>
                in case delete_one (department_collection st1) oid of (deleted_count, coll) \<Rightarrow>
                  if deleted_count = 0
                  then (except_InvalidId_Exception (Inl (HTTPException 404)), st1)
                  else (except_InvalidId_Exception
                          (Inr \<lparr>detail = ''Departamento deletado com sucesso'',
                                employees_updated = modified_count\<rparr>),
                        st1\<lparr>department_collection := coll\<rparr>))))"

text \<open>
  The cursor chain \<open>find(...).skip(skip).limit(limit).to_list(length=limit)\<close> of the
  asynchronous driver (Motor's cursor over PyMongo's): \<open>skip\<close> rejects a negative
  offset, a limit of 0 means no limit on the cursor, a negative limit stands for its
  absolute value, and \<open>to_list\<close> rejects a negative length and returns at most
  \<open>length\<close> documents (all of them for \<open>None\<close>, none for 0).
\<close>

definition cursor_skip :: "int \<Rightarrow> 'a list \<Rightarrow> exn + 'a list" where
  "cursor_skip n xs = (if n < 0 then Inl ValueError else Inr (drop (nat n) xs))"

definition cursor_limit :: "int \<Rightarrow> 'a list \<Rightarrow> 'a list" where
  "cursor_limit n xs = (if n = 0 then xs else take (nat \<bar>n\<bar>) xs)"

definition to_list :: "int option \<Rightarrow> 'a list \<Rightarrow> exn + 'a list" where
  "to_list len xs =
     (case len of
        None \<Rightarrow> Inr xs
      | Some n \<Rightarrow> if n < 0 then Inl ValueError else Inr (take (nat n) xs))"

definition skip_limit_to_list :: "int \<Rightarrow> int \<Rightarrow> 'a list \<Rightarrow> exn + 'a list" where
  "skip_limit_to_list sk lim xs =
     (case cursor_skip sk xs of
        Inl e \<Rightarrow> Inl e
      | Inr ys \<Rightarrow> to_list (Some lim) (cursor_limit lim ys))"

record PaginatedDepartmentResponse =
  total :: nat
  skip :: int
  limit :: int
  data :: "string doc list"

definition list_departments :: "int \<Rightarrow> int \<Rightarrow> store \<Rightarrow> exn + PaginatedDepartmentResponse" where
  "list_departments sk lim st =
     except_Exception
       (let total_count = length (department_collection st)
        in case skip_limit_to_list sk lim (department_collection st) of
             Inl e \<Rightarrow> Inl e
           | Inr departments \<Rightarrow>
               Inr \<lparr>total = total_count, skip = sk, limit = lim, data = map str_id departments\<rparr>)"

definition count_departments :: "store \<Rightarrow> exn + nat" where
  "count_departments st = except_Exception (Inr (length (department_collection st)))"

text \<open>
  \<open>get_departments_by_name\<close> hands the query string to the store as a regular expression
  with option \<open>i\<close>. The model covers the patterns built from ordinary characters, which
  match themselves up to the case of ASCII letters, and the dot, which matches any
  character but a newline; the expression may match anywhere in the text. For a pattern
  that uses another operator of the regular-expression syntax \<open>compile_regex\<close> is
  \<open>None\<close>, and so is the handler's result: such a request is outside the model. A field
  that holds a collection matches when one of its elements does.
\<close>

datatype rx_item = Lit char | AnyChar

definition regex_meta :: "char list" where
  "regex_meta = CHR 0x5C # ''^$.[]|()?*+{}''"

fun compile_regex :: "string \<Rightarrow> rx_item list option" where
  "compile_regex [] = Some []"
| "compile_regex (c # cs) =
     (if c = CHR ''.'' then map_option ((#) AnyChar) (compile_regex cs)
      else if c \<in> set regex_meta then None
      else map_option ((#) (Lit c)) (compile_regex cs))"

definition lower :: "char \<Rightarrow> char" where
  "lower c =
     (case map_of (zip ''ABCDEFGHIJKLMNOPQRSTUVWXYZ'' ''abcdefghijklmnopqrstuvwxyz'') c of
        None \<Rightarrow> c
      | Some l \<Rightarrow> l)"

fun item_matches :: "rx_item \<Rightarrow> char \<Rightarrow> bool" where
  "item_matches (Lit a) c = (lower a = lower c)"
| "item_matches AnyChar c = (c \<noteq> CHR 0x0A)"

fun match_here :: "rx_item list \<Rightarrow> string \<Rightarrow> bool" where
  "match_here [] cs = True"
| "match_here (r # rs) [] = False"
| "match_here (r # rs) (c # cs) = (item_matches r c \<and> match_here rs cs)"

fun regex_search :: "rx_item list \<Rightarrow> string \<Rightarrow> bool" where
  "regex_search rs [] = match_here rs []"
| "regex_search rs (c # cs) = (match_here rs (c # cs) \<or> regex_search rs cs)"

definition field_regex :: "string \<Rightarrow> rx_item list \<Rightarrow> 'i doc \<Rightarrow> bool" where
  "field_regex k rs d =
     (case doc_fields d k of
        Some (Str t) \<Rightarrow> regex_search rs t
      | Some (StrList ts) \<Rightarrow> list_ex (regex_search rs) ts
      | _ \<Rightarrow> False)"

definition get_departments_by_name ::
    "string \<Rightarrow> int \<Rightarrow> int \<Rightarrow> store \<Rightarrow> (exn + string doc list) option" where
  "get_departments_by_name nm sk lim st =
     (case compile_regex nm of
        None \<Rightarrow> None
      | Some rs \<Rightarrow>
          Some (except_Exception
                  (case skip_limit_to_list sk lim
                          (filter (field_regex ''name'' rs) (department_collection st)) of
                     Inl e \<Rightarrow> Inl e
                   | Inr departments \<Rightarrow> Inr (map str_id departments))))"

definition get_departments_by_manager :: "string \<Rightarrow> store \<Rightarrow> exn + string doc list" where
  "get_departments_by_manager manager st =
     except_Exception
       (case to_list None (filter (field_eq ''manager_id'' manager) (department_collection st)) of
          Inl e \<Rightarrow> Inl e
        | Inr departments \<Rightarrow> Inr (map str_id departments))"

definition get_departments_by_employee :: "string \<Rightarrow> store \<Rightarrow> exn + string doc list" where
  "get_departments_by_employee employee_id st =
     except_Exception
       (case to_list None (filter (field_eq ''employee_ids'' employee_id) (department_collection st)) of
          Inl e \<Rightarrow> Inl e
        | Inr departments \<Rightarrow> Inr (map str_id departments))"

text \<open>
  The join of \<open>get_departments_with_employees_and_benefits\<close>. Iterating the value of
  \<open>emp.get("benefits_id", [])\<close> gives no identifier when the field is absent, the
  elements of a collection, the characters of a text, and raises \<open>TypeError\<close> on null.
  The list comprehension parses every identifier with \<open>ObjectId\<close> and stops at the first
  that raises. The assignment \<open>emp["benefits"] = benefits\<close> replaces a stored field of
  that name by the resolved records.
\<close>

record enriched_employee = "string doc" +
  benefits :: "string doc list"

record department_info =
  department_id :: string
  department_name :: val
  dept_location :: val
  employees :: "enriched_employee list"

definition get_benefits_id :: "'i doc \<Rightarrow> exn + string list" where
  "get_benefits_id emp =
     (case doc_fields emp ''benefits_id'' of
        None \<Rightarrow> Inr []
      | Some (StrList bids) \<Rightarrow> Inr bids
      | Some (Str s) \<Rightarrow> Inr (map (\<lambda>c. [c]) s)
      | Some Null \<Rightarrow> Inl TypeError)"

fun benefit_ids :: "string list \<Rightarrow> exn + oid list" where
  "benefit_ids [] = Inr []"
| "benefit_ids (bid # bids) =
     (case ObjectId bid of
        Inl e \<Rightarrow> Inl e
      | Inr i \<Rightarrow> (case benefit_ids bids of Inl e \<Rightarrow> Inl e | Inr is \<Rightarrow> Inr (i # is)))"

definition find_in :: "oid doc list \<Rightarrow> oid list \<Rightarrow> oid doc list" where
  \<comment> \<open>\<open>find({"_id": {"$in": ids}})\<close>\<close>
  "find_in coll ids = filter (\<lambda>b. doc_id b \<in> set ids) coll"

definition enrich_employee :: "store \<Rightarrow> oid doc \<Rightarrow> exn + enriched_employee" where
  "enrich_employee st emp =
     (case get_benefits_id emp of
        Inl e \<Rightarrow> Inl e
      | Inr bids \<Rightarrow>
          (case benefit_ids bids of
             Inl e \<Rightarrow> Inl e
           | Inr ids \<Rightarrow>
               Inr \<lparr>doc_id = str (doc_id emp),
                    doc_fields = (doc_fields emp)(''benefits'' := None),
                    benefits = map str_id (find_in (benefit_collection st) ids)\<rparr>))"

fun enrich_employees :: "store \<Rightarrow> oid doc list \<Rightarrow> exn + enriched_employee list" where
  "enrich_employees st [] = Inr []"
| "enrich_employees st (emp # emps) =
     (case enrich_employee st emp of
        Inl e \<Rightarrow> Inl e
      | Inr x \<Rightarrow> (case enrich_employees st emps of Inl e \<Rightarrow> Inl e | Inr xs \<Rightarrow> Inr (x # xs)))"

definition department_full_info :: "store \<Rightarrow> oid doc \<Rightarrow> exn + department_info" where
  "department_full_info st dep =
     (let dep_id = str (doc_id dep);
          emps = filter (field_eq ''department_id'' dep_id) (employee_collection st)
      in case enrich_employees st emps of
           Inl e \<Rightarrow> Inl e
         | Inr enriched_employees \<Rightarrow>
             (case doc_fields dep ''name'' of
                None \<Rightarrow> Inl KeyError
              | Some nm \<Rightarrow>
                  Inr \<lparr>department_id = dep_id,
                       department_name = nm,
                       dept_location = (case doc_fields dep ''location'' of None \<Rightarrow> Null | Some l \<Rightarrow> l),
                       employees = enriched_employees\<rparr>))"

fun full_info_loop :: "store \<Rightarrow> oid doc list \<Rightarrow> exn + department_info list" where
  "full_info_loop st [] = Inr []"
| "full_info_loop st (dep # deps) =
     (case department_full_info st dep of
        Inl e \<Rightarrow> Inl e
      | Inr x \<Rightarrow> (case full_info_loop st deps of Inl e \<Rightarrow> Inl e | Inr xs \<Rightarrow> Inr (x # xs)))"

definition get_departments_with_employees_and_benefits :: "store \<Rightarrow> exn + department_info list" where
  "get_departments_with_employees_and_benefits st =
     except_Exception (full_info_loop st (department_collection st))"

section \<open>The properties in the words of the specification\<close>

text \<open>
  A field is text in the sense of the data model when it is absent, null or a string,
  that is, when it does not hold a collection.
\<close>

definition text_field :: "string \<Rightarrow> 'i doc \<Rightarrow> bool" where
  "text_field k d = (case doc_fields d k of Some (StrList ts) \<Rightarrow> False | _ \<Rightarrow> True)"

text \<open>
  The name of a department contains the query as a case-insensitive substring: the
  lower-cased query is a contiguous part of the lower-cased name.
\<close>

definition name_contains :: "string \<Rightarrow> 'i doc \<Rightarrow> bool" where
  "name_contains q d =
     (case doc_fields d ''name'' of
        Some (Str t) \<Rightarrow> sublist (map lower q) (map lower t)
      | _ \<Rightarrow> False)"

text \<open>
  The benefit identifiers an employee holds, and the Benefit records they resolve to:
  the records whose identifier is the parsed form of one of them.
\<close>

definition held_benefit_ids :: "'i doc \<Rightarrow> string list" where
  "held_benefit_ids emp =
     (case doc_fields emp ''benefits_id'' of Some (StrList bids) \<Rightarrow> bids | _ \<Rightarrow> [])"

definition resolved_benefits :: "store \<Rightarrow> 'i doc \<Rightarrow> oid doc list" where
  "resolved_benefits st emp =
     filter (\<lambda>b. list_ex (\<lambda>bid. ObjectId bid = Inr (doc_id b)) (held_benefit_ids emp))
       (benefit_collection st)"

definition benefit_ids_parse :: "'i doc \<Rightarrow> bool" where
  "benefit_ids_parse emp =
     (case doc_fields emp ''benefits_id'' of
        None \<Rightarrow> True
      | Some (StrList bids) \<Rightarrow> list_all (\<lambda>bid. \<not> isl (ObjectId bid)) bids
      | _ \<Rightarrow> False)"

text \<open>
  An employee as the join returns it: its identifier as a string, its stored fields,
  and under \<open>benefits\<close> the Benefit records it resolves to, their identifiers as
  strings.
\<close>

definition resolved_employee :: "store \<Rightarrow> oid doc \<Rightarrow> enriched_employee" where
  "resolved_employee st emp =
     \<lparr>doc_id = str (doc_id emp),
      doc_fields = (doc_fields emp)(''benefits'' := None),
      benefits = map str_id (resolved_benefits st emp)\<rparr>"

section \<open>A sample store\<close>

definition dept_eng :: "oid doc" where
  "dept_eng = \<lparr>doc_id = 1, doc_fields =
     [''name'' \<mapsto> Str ''Engineering'', ''location'' \<mapsto> Str ''Quixada'',
      ''manager_id'' \<mapsto> Str ''000000000000000000000011'',
      ''employee_ids'' \<mapsto> StrList [''000000000000000000000011'', ''000000000000000000000012'']]\<rparr>"

definition dept_sales :: "oid doc" where
  "dept_sales = \<lparr>doc_id = 2, doc_fields = [''name'' \<mapsto> Str ''Sales'']\<rparr>"

definition emp_ana :: "oid doc" where
  "emp_ana = \<lparr>doc_id = 0x11, doc_fields =
     [''department_id'' \<mapsto> Str ''000000000000000000000001'',
      ''benefits_id'' \<mapsto> StrList [''000000000000000000000021'', ''000000000000000000000022'']]\<rparr>"

definition emp_bia :: "oid doc" where
  "emp_bia = \<lparr>doc_id = 0x12, doc_fields =
     [''department_id'' \<mapsto> Str ''000000000000000000000001'']\<rparr>"

definition emp_caio :: "oid doc" where
  "emp_caio = \<lparr>doc_id = 0x13, doc_fields =
     [''department_id'' \<mapsto> Str ''0000000000000000000000ff'']\<rparr>"

definition emp_davi :: "oid doc" where
  "emp_davi = \<lparr>doc_id = 0x14, doc_fields =
     [''department_id'' \<mapsto> Str ''000000000000000000000001'',
      ''benefits_id'' \<mapsto> StrList [''000000000000000000000021'', ''not-an-id'']]\<rparr>"

definition benefit_health :: "oid doc" where
  "benefit_health = \<lparr>doc_id = 0x21, doc_fields = [''name'' \<mapsto> Str ''Health plan'']\<rparr>"

definition sample_store :: store where
  "sample_store =
     \<lparr>department_collection = [dept_eng, dept_sales],
      employee_collection = [emp_ana, emp_bia, emp_caio],
      benefit_collection = [benefit_health]\<rparr>"

definition store_with_bad_benefit_id :: store where
  "store_with_bad_benefit_id =
     \<lparr>department_collection = [dept_eng, dept_sales],
      employee_collection = [emp_davi],
      benefit_collection = [benefit_health]\<rparr>"

definition fifteen_departments :: store where
  "fifteen_departments =
     \<lparr>department_collection = map (\<lambda>n. \<lparr>doc_id = of_nat n, doc_fields = Map.empty\<rparr>) [0..<15],
      employee_collection = [],
      benefit_collection = []\<rparr>"

definition only_location :: DepartmentCreate where
  "only_location = \<lparr>name = None, location = Some (Str ''Fortaleza''), manager_id = None,
     employee_ids = None\<rparr>"

section \<open>Identifiers: parsing and printing\<close>

lemma hex_val_digit:
  assumes "m < 16"
  shows "hex_val (hex_digit m) = Some m"
proof -
  from assms have "m = 0 \<or> m = 1 \<or> m = 2 \<or> m = 3 \<or> m = 4 \<or> m = 5 \<or> m = 6 \<or> m = 7
      \<or> m = 8 \<or> m = 9 \<or> m = 10 \<or> m = 11 \<or> m = 12 \<or> m = 13 \<or> m = 14 \<or> m = 15"
    by arith
  then show ?thesis
    by (auto simp: hex_val_def hex_digit_def)
qed

lemma from_hex_append:
  "from_hex a (xs @ ys) = (case from_hex a xs of None \<Rightarrow> None | Some b \<Rightarrow> from_hex b ys)"
  by (induction xs arbitrary: a) (auto split: option.splits)

lemma from_hex_to_hex: "from_hex a (to_hex k n) = Some (a * 16 ^ k + n mod 16 ^ k)"
proof (induction k arbitrary: n)
  case 0
  show ?case by simp
next
  case (Suc k)
  have "n mod 16 ^ Suc k = 16 * ((n div 16) mod 16 ^ k) + n mod 16"
    by (simp add: mod_mult2_eq)
  then show ?case
    by (simp add: from_hex_append Suc hex_val_digit algebra_simps)
qed

lemma length_to_hex: "length (to_hex k n) = k"
  by (induction k arbitrary: n) auto

lemma to_hex_pos:
  "0 < k \<Longrightarrow> to_hex k n = to_hex (k - 1) (n div 16) @ [hex_digit (n mod 16)]"
  by (cases k) auto

lemma ObjectId_str: "ObjectId (str w) = Inr w"
proof -
  have "unat w < 2 ^ 96"
    using unsigned_less [of w] by simp
  then have "unat w mod 16 ^ 24 = unat w"
    by simp
  then show ?thesis
    by (simp add: ObjectId_def str_def length_to_hex from_hex_to_hex)
qed

lemma ObjectId_Inl: "ObjectId s = Inl e \<Longrightarrow> e = InvalidId"
  by (auto simp: ObjectId_def split: if_splits option.splits)

lemma ObjectId_isl: "isl (ObjectId s) \<Longrightarrow> ObjectId s = Inl InvalidId"
  by (cases "ObjectId s") (auto dest: ObjectId_Inl)

lemma str_not_Nil: "str w \<noteq> []"
  using length_to_hex [of 24 "unat w"] by (auto simp: str_def)

section \<open>Identifier errors\<close>

text \<open>
  C2. For every identifier string that \<open>ObjectId\<close> cannot parse, each of
  \<open>get_department\<close>, \<open>update_department\<close> and \<open>delete_department\<close> fails with status
  400, whatever the store and the update hold; so it fails with neither 404 nor 500.
\<close>

theorem invalid_identifier_400:
  assumes "isl (ObjectId s)"
  shows "get_department s st = Inl (HTTPException 400)
       \<and> fst (update_department s u st) = Inl (HTTPException 400)
       \<and> fst (delete_department s st) = Inl (HTTPException 400)"
  using ObjectId_isl [OF assms]
  by (simp add: get_department_def update_department_def delete_department_def)

theorem invalid_identifier_400_witness:
  "isl (ObjectId ''not-an-id'')
   \<and> get_department ''not-an-id'' sample_store = Inl (HTTPException 400)
   \<and> fst (update_department ''not-an-id'' only_location sample_store) = Inl (HTTPException 400)
   \<and> fst (delete_department ''not-an-id'' sample_store) = Inl (HTTPException 400)"
proof -
  have h: "isl (ObjectId ''not-an-id'')"
    by (simp add: ObjectId_def)
  show ?thesis
    using h invalid_identifier_400 [OF h, of sample_store only_location] by simp
qed

text \<open>
  C9. \<open>delete_department\<close> parses the identifier before it touches the store: for every
  identifier string that \<open>ObjectId\<close> cannot parse it fails with status 400 and returns
  the store it was given, the employee and the department collection included.
\<close>

theorem delete_invalid_identifier_unchanged:
  assumes "isl (ObjectId s)"
  shows "delete_department s st = (Inl (HTTPException 400), st)"
  using ObjectId_isl [OF assms] by (simp add: delete_department_def)

theorem delete_invalid_identifier_unchanged_witness:
  "isl (ObjectId ''0000000000000000000000zz'')
   \<and> delete_department ''0000000000000000000000zz'' sample_store
       = (Inl (HTTPException 400), sample_store)"
proof -
  have h: "isl (ObjectId ''0000000000000000000000zz'')"
    by (simp add: ObjectId_def hex_val_def)
  show ?thesis
    using h delete_invalid_identifier_unchanged [OF h, of sample_store] by simp
qed

section \<open>Store operations\<close>

lemma find_one_Some: "find_one coll i = Some d \<Longrightarrow> doc_id d = i \<and> d \<in> set coll"
  by (auto simp: find_one_def find_Some_iff)

lemma find_one_None: "find_one coll i = None \<longleftrightarrow> i \<notin> doc_id ` set coll"
  by (auto simp: find_one_def find_None_iff)

lemma doc_id_set_fields: "doc_id (set_fields upd d) = doc_id d"
  by (simp add: set_fields_def)

lemma update_one_missing: "find_one coll i = None \<Longrightarrow> update_one coll i upd = (0, coll)"
  by (induction coll) (auto simp: find_one_def)

lemma update_one_matched:
  "find_one coll i = Some d \<Longrightarrow> fst (update_one coll i upd) = 1"
  by (induction coll) (auto simp: find_one_def split: prod.splits)

lemma find_one_update_one:
  "find_one (snd (update_one coll i upd)) j =
     (if j = i then map_option (set_fields upd) (find_one coll i) else find_one coll j)"
  by (induction coll) (auto simp: find_one_def doc_id_set_fields split: prod.splits)

lemma delete_one_missing: "find_one coll i = None \<Longrightarrow> delete_one coll i = (0, coll)"
  by (induction coll) (auto simp: find_one_def)

lemma delete_one_found: "find_one coll i = Some d \<Longrightarrow> delete_one coll i = (1, remove1 d coll)"
proof (induction coll)
  case Nil
  then show ?case by (simp add: find_one_def)
next
  case (Cons x coll)
  show ?case
  proof (cases "doc_id x = i")
    case True
    with Cons.prems show ?thesis by (simp add: find_one_def)
  next
    case False
    with Cons.prems have tl: "find_one coll i = Some d"
      by (simp add: find_one_def)
    from find_one_Some [OF tl] False have "x \<noteq> d"
      by auto
    with False Cons.IH [OF tl] show ?thesis
      by simp
  qed
qed

lemma update_many_eq:
  "update_many coll flt k v =
     (length (filter (\<lambda>d. flt d \<and> doc_fields d k \<noteq> Some v) coll),
      map (\<lambda>d. if flt d then set_fields [k \<mapsto> v] d else d) coll)"
  by (induction coll) auto

lemma skip_limit_to_list_page:
  "0 \<le> sk \<Longrightarrow> 0 \<le> lim \<Longrightarrow> skip_limit_to_list sk lim xs = Inr (take (nat lim) (drop (nat sk) xs))"
  by (simp add: skip_limit_to_list_def cursor_skip_def cursor_limit_def to_list_def)

section \<open>Not found\<close>

text \<open>
  C1. The identifier \<open>0000000000000000000000ff\<close> is well formed and matches no
  department of the sample store. The handlers raise \<open>HTTPException(404)\<close> inside
  their \<open>try\<close> block, and the clause \<open>except Exception\<close> replaces it: get, update and
  delete all answer 500. Delete has by then cleared the \<open>department_id\<close> of the one
  employee that held this string, and that update stays.
\<close>

theorem not_found_answers_500:
  "get_department ''0000000000000000000000ff'' sample_store = Inl (HTTPException 500)
   \<and> update_department ''0000000000000000000000ff'' only_location sample_store
       = (Inl (HTTPException 500), sample_store)
   \<and> delete_department ''0000000000000000000000ff'' sample_store
       = (Inl (HTTPException 500),
          sample_store\<lparr>employee_collection :=
            [emp_ana, emp_bia, \<lparr>doc_id = 0x13, doc_fields = [''department_id'' \<mapsto> Null]\<rparr>]\<rparr>)"
proof -
  have oid: "ObjectId ''0000000000000000000000ff'' = Inr 0xff"
    by (simp add: ObjectId_def hex_val_def)
  have missing: "find_one (department_collection sample_store) (0xff :: oid) = None"
    by (simp add: find_one_def sample_store_def dept_eng_def dept_sales_def)
  have g: "get_department ''0000000000000000000000ff'' sample_store = Inl (HTTPException 500)"
    by (simp add: get_department_def oid missing)
  have u: "update_department ''0000000000000000000000ff'' only_location sample_store
       = (Inl (HTTPException 500), sample_store)"
    by (simp add: update_department_def oid update_one_missing [OF missing])
  have d: "delete_department ''0000000000000000000000ff'' sample_store
       = (Inl (HTTPException 500),
          sample_store\<lparr>employee_collection :=
            [emp_ana, emp_bia, \<lparr>doc_id = 0x13, doc_fields = [''department_id'' \<mapsto> Null]\<rparr>]\<rparr>)"
    by (simp add: delete_department_def oid delete_one_missing [OF missing] update_many_eq)
       (simp add: sample_store_def field_eq_def set_fields_def emp_ana_def emp_bia_def emp_caio_def)
  from g u d show ?thesis by simp
qed

section \<open>Listing and searching\<close>

text \<open>
  C8. For every \<open>skip \<ge> 0\<close> and \<open>limit \<ge> 0\<close>, \<open>list_departments\<close> succeeds; \<open>total\<close> is
  the number of all Department records, whatever skip and limit are, and \<open>data\<close> is the
  page of at most \<open>limit\<close> records that starts at offset \<open>skip\<close>, in the collection's
  order, each with its identifier as a string. The instance that follows is the case of 15
  departments, skip 0 and limit 10: total 15 and 10 records.
\<close>

theorem list_departments_page:
  assumes "0 \<le> sk" and "0 \<le> lim"
  shows "\<exists>r. list_departments sk lim st = Inr r
           \<and> total r = length (department_collection st)
           \<and> data r = map str_id (take (nat lim) (drop (nat sk) (department_collection st)))
           \<and> length (data r) \<le> nat lim
           \<and> skip r = sk \<and> limit r = lim"
  using assms by (simp add: list_departments_def skip_limit_to_list_page)

theorem list_departments_page_witness:
  "(0::int) \<le> 0 \<and> (0::int) \<le> 10
   \<and> length (department_collection fifteen_departments) = 15
   \<and> (\<exists>r. list_departments 0 10 fifteen_departments = Inr r
          \<and> total r = 15 \<and> length (data r) = 10)"
proof -
  have n: "length (department_collection fifteen_departments) = 15"
    by (simp add: fifteen_departments_def)
  from list_departments_page [of 0 10 fifteen_departments]
  obtain r where r: "list_departments 0 10 fifteen_departments = Inr r"
      "total r = length (department_collection fifteen_departments)"
      "data r = map str_id (take (nat 10) (drop (nat 0) (department_collection fifteen_departments)))"
    by auto
  from r(3) n have "length (data r) = 10"
    by simp
  with r(1,2) n show ?thesis
    by auto
qed

text \<open>
  C10. \<open>get_departments_by_manager\<close> and \<open>get_departments_by_employee\<close> never parse
  their argument: for every string, parseable as an identifier or not, and every store,
  they succeed with the list of the departments that the store's equality filter on the
  raw string selects (empty when there is none), so they never fail with status 400.
\<close>

theorem find_by_manager_or_employee_succeeds:
  "get_departments_by_manager s st
     = Inr (map str_id (filter (field_eq ''manager_id'' s) (department_collection st)))
   \<and> get_departments_by_employee s st
     = Inr (map str_id (filter (field_eq ''employee_ids'' s) (department_collection st)))
   \<and> get_departments_by_manager s st \<noteq> Inl (HTTPException 400)
   \<and> get_departments_by_employee s st \<noteq> Inl (HTTPException 400)"
  by (simp add: get_departments_by_manager_def get_departments_by_employee_def to_list_def)

section \<open>Create, update and delete\<close>

lemma find_one_append_fresh:
  "i \<notin> doc_id ` set coll \<Longrightarrow> doc_id d = i \<Longrightarrow> find_one (coll @ [d]) i = Some d"
  by (induction coll) (auto simp: find_one_def)

lemma field_eq_text:
  "text_field k e \<Longrightarrow> field_eq k s e \<longleftrightarrow> doc_fields e k = Some (Str s)"
  by (auto simp: text_field_def field_eq_def split: option.splits val.splits)

lemma filter_field_eq_text:
  "\<forall>e \<in> set coll. text_field k e \<Longrightarrow>
   filter (\<lambda>e. field_eq k s e \<and> doc_fields e k \<noteq> Some Null) coll
     = filter (\<lambda>e. doc_fields e k = Some (Str s)) coll"
  by (rule filter_cong) (auto simp: field_eq_text)

lemma map_field_eq_text:
  "\<forall>e \<in> set coll. text_field k e \<Longrightarrow>
   map (\<lambda>e. if field_eq k s e then f e else e) coll
     = map (\<lambda>e. if doc_fields e k = Some (Str s) then f e else e) coll"
  by (rule map_cong) (auto simp: field_eq_text)

text \<open>
  C6. For every partial field set, when the store assigns the new record a fresh
  identifier, \<open>create_department\<close> succeeds, and \<open>get_department\<close> on the returned
  identifier returns the same record: a non-empty identifier together with exactly the
  supplied fields. A field the caller left unset is absent from the record, not null.
\<close>

theorem create_then_get:
  assumes "inserted_id \<notin> doc_id ` set (department_collection st)"
  shows "\<exists>created st'.
           create_department inserted_id dc st = (Inr created, st')
         \<and> get_department (doc_id created) st' = Inr created
         \<and> doc_id created \<noteq> []
         \<and> doc_fields created = model_dump dc
         \<and> doc_fields created ''name'' = name dc
         \<and> doc_fields created ''location'' = location dc
         \<and> doc_fields created ''manager_id'' = manager_id dc
         \<and> doc_fields created ''employee_ids'' = employee_ids dc
         \<and> dom (doc_fields created) \<subseteq> {''name'', ''location'', ''manager_id'', ''employee_ids''}"
proof -
  let ?new = "\<lparr>doc_id = inserted_id, doc_fields = model_dump dc\<rparr>"
  let ?coll = "department_collection st @ [?new]"
  have ins: "insert_one (department_collection st) ?new = Inr ?coll"
    using assms by (simp add: insert_one_def)
  have found: "find_one ?coll inserted_id = Some ?new"
    using assms by (simp add: find_one_append_fresh)
  have c: "create_department inserted_id dc st
             = (Inr (str_id ?new), st\<lparr>department_collection := ?coll\<rparr>)"
    by (simp add: create_department_def ins found)
  have g: "get_department (doc_id (str_id ?new)) (st\<lparr>department_collection := ?coll\<rparr>)
             = Inr (str_id ?new)"
    by (simp add: get_department_def str_id_def ObjectId_str found)
  have d: "dom (model_dump dc) \<subseteq> {''name'', ''location'', ''manager_id'', ''employee_ids''}"
    by (auto simp: model_dump_def split: if_splits)
  have f: "doc_fields (str_id ?new) = model_dump dc" "doc_id (str_id ?new) \<noteq> []"
    by (simp_all add: str_id_def str_not_Nil)
  from c g d f show ?thesis
    by (auto simp: model_dump_def)
qed

theorem create_then_get_witness:
  "(3 :: oid) \<notin> doc_id ` set (department_collection sample_store)
   \<and> (\<exists>created st'.
           create_department 3 only_location sample_store = (Inr created, st')
         \<and> get_department (doc_id created) st' = Inr created
         \<and> doc_id created \<noteq> []
         \<and> doc_fields created ''name'' = None
         \<and> doc_fields created ''location'' = Some (Str ''Fortaleza''))"
proof -
  have h: "(3 :: oid) \<notin> doc_id ` set (department_collection sample_store)"
    by (simp add: sample_store_def dept_eng_def dept_sales_def)
  from create_then_get [OF h, of only_location]
  obtain created st' where
      "create_department 3 only_location sample_store = (Inr created, st')"
      "get_department (doc_id created) st' = Inr created"
      "doc_id created \<noteq> []"
      "doc_fields created ''name'' = name only_location"
      "doc_fields created ''location'' = location only_location"
    by blast
  with h show ?thesis
    by (auto simp: only_location_def)
qed

text \<open>
  C5. \<open>update_department\<close> is a merge-patch. For every existing Department and every
  partial field set the update succeeds, and in the returned record, which is the stored
  one with its identifier as a string, each supplied field has the supplied value and
  every other field the value it had before. The other departments, the employees and
  the benefits are left as they were. In particular an update of \<open>location\<close> alone
  leaves \<open>name\<close>, \<open>manager_id\<close> and \<open>employee_ids\<close> unchanged.
\<close>

theorem update_is_merge_patch:
  assumes "ObjectId s = Inr i"
    and "find_one (department_collection st) i = Some d"
  shows "\<exists>r st'.
           update_department s u st = (Inr r, st')
         \<and> doc_id r = str i
         \<and> find_one (department_collection st') i = Some \<lparr>doc_id = i, doc_fields = doc_fields r\<rparr>
         \<and> (\<forall>k. doc_fields r k = (case model_dump u k of Some v \<Rightarrow> Some v | None \<Rightarrow> doc_fields d k))
         \<and> (\<forall>j. j \<noteq> i \<longrightarrow> find_one (department_collection st') j = find_one (department_collection st) j)
         \<and> employee_collection st' = employee_collection st
         \<and> benefit_collection st' = benefit_collection st
         \<and> (name u = None \<and> manager_id u = None \<and> employee_ids u = None \<longrightarrow>
              doc_fields r ''name'' = doc_fields d ''name''
            \<and> doc_fields r ''manager_id'' = doc_fields d ''manager_id''
            \<and> doc_fields r ''employee_ids'' = doc_fields d ''employee_ids''
            \<and> doc_fields r ''location'' = (case location u of Some v \<Rightarrow> Some v | None \<Rightarrow> doc_fields d ''location''))"
proof -
  let ?upd = "model_dump u"
  obtain m coll where uo: "update_one (department_collection st) i ?upd = (m, coll)"
    by (cases "update_one (department_collection st) i ?upd")
  have m: "m = 1"
    using update_one_matched [OF assms(2), of ?upd] uo by simp
  have id: "doc_id d = i"
    using find_one_Some [OF assms(2)] by simp
  have f: "find_one coll j = (if j = i then Some (set_fields ?upd d) else find_one (department_collection st) j)" for j
    using find_one_update_one [of "department_collection st" i ?upd j] uo assms(2) by simp
  let ?r = "str_id (set_fields ?upd d)"
  have res: "update_department s u st = (Inr ?r, st\<lparr>department_collection := coll\<rparr>)"
    by (simp add: update_department_def assms(1) uo m f)
  have stored: "set_fields ?upd d = \<lparr>doc_id = i, doc_fields = doc_fields ?r\<rparr>"
    using id by (simp add: str_id_def set_fields_def)
  have merge: "doc_fields ?r k = (case ?upd k of Some v \<Rightarrow> Some v | None \<Rightarrow> doc_fields d k)" for k
    by (simp add: str_id_def set_fields_def map_add_def)
  have rid: "doc_id ?r = str i"
    using id by (simp add: str_id_def set_fields_def)
  have ex: "name u = None \<and> manager_id u = None \<and> employee_ids u = None \<longrightarrow>
              doc_fields ?r ''name'' = doc_fields d ''name''
            \<and> doc_fields ?r ''manager_id'' = doc_fields d ''manager_id''
            \<and> doc_fields ?r ''employee_ids'' = doc_fields d ''employee_ids''
            \<and> doc_fields ?r ''location'' = (case location u of Some v \<Rightarrow> Some v | None \<Rightarrow> doc_fields d ''location'')"
    unfolding merge by (simp add: model_dump_def)
  show ?thesis
  proof (intro exI conjI)
    show "update_department s u st = (Inr ?r, st\<lparr>department_collection := coll\<rparr>)"
      by (rule res)
    show "doc_id ?r = str i"
      by (rule rid)
    show "find_one (department_collection (st\<lparr>department_collection := coll\<rparr>)) i
            = Some \<lparr>doc_id = i, doc_fields = doc_fields ?r\<rparr>"
      using f [of i] stored by simp
    show "\<forall>k. doc_fields ?r k = (case ?upd k of Some v \<Rightarrow> Some v | None \<Rightarrow> doc_fields d k)"
      using merge by blast
    show "\<forall>j. j \<noteq> i \<longrightarrow> find_one (department_collection (st\<lparr>department_collection := coll\<rparr>)) j
            = find_one (department_collection st) j"
      using f by simp
    show "employee_collection (st\<lparr>department_collection := coll\<rparr>) = employee_collection st"
      by simp
    show "benefit_collection (st\<lparr>department_collection := coll\<rparr>) = benefit_collection st"
      by simp
    show "name u = None \<and> manager_id u = None \<and> employee_ids u = None \<longrightarrow>
              doc_fields ?r ''name'' = doc_fields d ''name''
            \<and> doc_fields ?r ''manager_id'' = doc_fields d ''manager_id''
            \<and> doc_fields ?r ''employee_ids'' = doc_fields d ''employee_ids''
            \<and> doc_fields ?r ''location'' = (case location u of Some v \<Rightarrow> Some v | None \<Rightarrow> doc_fields d ''location'')"
      by (rule ex)
  qed
qed

theorem update_is_merge_patch_witness:
  "ObjectId ''000000000000000000000001'' = Inr 1
   \<and> find_one (department_collection sample_store) 1 = Some dept_eng
   \<and> name only_location = None \<and> manager_id only_location = None
   \<and> employee_ids only_location = None
   \<and> (\<exists>r st'.
           update_department ''000000000000000000000001'' only_location sample_store = (Inr r, st')
         \<and> doc_fields r ''location'' = Some (Str ''Fortaleza'')
         \<and> doc_fields r ''name'' = Some (Str ''Engineering'')
         \<and> doc_fields r ''manager_id'' = Some (Str ''000000000000000000000011'')
         \<and> doc_fields r ''employee_ids''
             = Some (StrList [''000000000000000000000011'', ''000000000000000000000012''])
         \<and> find_one (department_collection st') 2 = Some dept_sales)"
proof -
  have h1: "ObjectId ''000000000000000000000001'' = Inr 1"
    by (simp add: ObjectId_def hex_val_def)
  have h2: "find_one (department_collection sample_store) 1 = Some dept_eng"
    by (simp add: find_one_def sample_store_def dept_eng_def)
  have h3: "name only_location = None \<and> manager_id only_location = None
      \<and> employee_ids only_location = None"
    by (simp add: only_location_def)
  have h4: "find_one (department_collection sample_store) 2 = Some dept_sales"
    by (simp add: find_one_def sample_store_def dept_eng_def dept_sales_def)
  from update_is_merge_patch [OF h1 h2, of only_location]
  obtain r st' where r:
      "update_department ''000000000000000000000001'' only_location sample_store = (Inr r, st')"
      "\<forall>j. j \<noteq> 1 \<longrightarrow> find_one (department_collection st') j
              = find_one (department_collection sample_store) j"
      "name only_location = None \<and> manager_id only_location = None
         \<and> employee_ids only_location = None \<longrightarrow>
              doc_fields r ''name'' = doc_fields dept_eng ''name''
            \<and> doc_fields r ''manager_id'' = doc_fields dept_eng ''manager_id''
            \<and> doc_fields r ''employee_ids'' = doc_fields dept_eng ''employee_ids''
            \<and> doc_fields r ''location''
                = (case location only_location of Some v \<Rightarrow> Some v
                   | None \<Rightarrow> doc_fields dept_eng ''location'')"
    by blast
  from r(3) h3 have fields:
      "doc_fields r ''location'' = Some (Str ''Fortaleza'')"
      "doc_fields r ''name'' = Some (Str ''Engineering'')"
      "doc_fields r ''manager_id'' = Some (Str ''000000000000000000000011'')"
      "doc_fields r ''employee_ids''
         = Some (StrList [''000000000000000000000011'', ''000000000000000000000012''])"
    by (simp_all add: only_location_def dept_eng_def)
  from r(2) h4 have other: "find_one (department_collection st') 2 = Some dept_sales"
    by simp
  from h1 h2 h3 r(1) fields other show ?thesis
    by blast
qed

text \<open>
  C4. Let an existing Department be deleted by an identifier string \<open>s\<close>, and let \<open>N\<close>
  employees hold exactly the string \<open>s\<close> as their \<open>department_id\<close> (a text field, as in
  the data model). Then \<open>delete_department\<close> succeeds with \<open>employees_updated = N\<close>;
  in the resulting store the \<open>department_id\<close> of each of those employees is null and
  every other employee is as before, no employee holds \<open>s\<close> any more, and the
  Department record is removed from its collection.
\<close>

theorem delete_clears_references:
  assumes "ObjectId s = Inr i"
    and "find_one (department_collection st) i = Some d"
    and "\<forall>e \<in> set (employee_collection st). text_field ''department_id'' e"
    and "length (filter (\<lambda>e. doc_fields e ''department_id'' = Some (Str s)) (employee_collection st)) = N"
  shows "\<exists>r st'.
           delete_department s st = (Inr r, st')
         \<and> employees_updated r = N
         \<and> employee_collection st'
             = map (\<lambda>e. if doc_fields e ''department_id'' = Some (Str s)
                         then e\<lparr>doc_fields := (doc_fields e)(''department_id'' \<mapsto> Null)\<rparr>
                         else e)
                 (employee_collection st)
         \<and> (\<forall>e \<in> set (employee_collection st'). doc_fields e ''department_id'' \<noteq> Some (Str s))
         \<and> department_collection st' = remove1 d (department_collection st)
         \<and> benefit_collection st' = benefit_collection st"
proof -
  let ?k = "''department_id''"
  let ?emps = "map (\<lambda>e. if doc_fields e ?k = Some (Str s)
                         then e\<lparr>doc_fields := (doc_fields e)(?k \<mapsto> Null)\<rparr>
                         else e)
                 (employee_collection st)"
  have cnt: "length (filter (\<lambda>e. field_eq ?k s e \<and> doc_fields e ?k \<noteq> Some Null)
                       (employee_collection st)) = N"
    unfolding filter_field_eq_text [OF assms(3)] by (rule assms(4))
  have upd: "map (\<lambda>e. if field_eq ?k s e then set_fields [?k \<mapsto> Null] e else e)
               (employee_collection st) = ?emps"
    unfolding map_field_eq_text [OF assms(3)] by (simp add: set_fields_def)
  have um: "update_many (employee_collection st) (field_eq ?k s) ?k Null = (N, ?emps)"
    unfolding update_many_eq cnt upd by (rule refl)
  have res: "delete_department s st
      = (Inr \<lparr>detail = ''Departamento deletado com sucesso'', employees_updated = N\<rparr>,
         st\<lparr>employee_collection := ?emps,
            department_collection := remove1 d (department_collection st)\<rparr>)"
    unfolding delete_department_def
    by (simp add: assms(1) um delete_one_found [OF assms(2)] del: map_map)
  have cleared: "doc_fields e ?k \<noteq> Some (Str s)" if "e \<in> set ?emps" for e
  proof -
    from that obtain e0 where "e = (if doc_fields e0 ?k = Some (Str s)
                         then e0\<lparr>doc_fields := (doc_fields e0)(?k \<mapsto> Null)\<rparr> else e0)"
      by (auto simp only: set_map)
    then show ?thesis
      by (cases "doc_fields e0 ?k = Some (Str s)") simp_all
  qed
  have sel: "employee_collection (st\<lparr>employee_collection := ?emps,
            department_collection := remove1 d (department_collection st)\<rparr>) = ?emps"
    by simp
  show ?thesis
  proof (intro exI conjI)
    show "delete_department s st
      = (Inr \<lparr>detail = ''Departamento deletado com sucesso'', employees_updated = N\<rparr>,
         st\<lparr>employee_collection := ?emps,
            department_collection := remove1 d (department_collection st)\<rparr>)"
      by (rule res)
    show "employees_updated \<lparr>detail = ''Departamento deletado com sucesso'', employees_updated = N\<rparr> = N"
      by simp
    show "employee_collection (st\<lparr>employee_collection := ?emps,
            department_collection := remove1 d (department_collection st)\<rparr>) = ?emps"
      by simp
    show "\<forall>e \<in> set (employee_collection (st\<lparr>employee_collection := ?emps,
            department_collection := remove1 d (department_collection st)\<rparr>)).
            doc_fields e ?k \<noteq> Some (Str s)"
      unfolding sel using cleared by blast
    show "department_collection (st\<lparr>employee_collection := ?emps,
            department_collection := remove1 d (department_collection st)\<rparr>)
            = remove1 d (department_collection st)"
      by simp
    show "benefit_collection (st\<lparr>employee_collection := ?emps,
            department_collection := remove1 d (department_collection st)\<rparr>)
            = benefit_collection st"
      by simp
  qed
qed

theorem delete_clears_references_witness:
  "ObjectId ''000000000000000000000001'' = Inr 1
   \<and> find_one (department_collection sample_store) 1 = Some dept_eng
   \<and> list_all (text_field ''department_id'') (employee_collection sample_store)
   \<and> length (filter (\<lambda>e. doc_fields e ''department_id'' = Some (Str ''000000000000000000000001''))
               (employee_collection sample_store)) = 2
   \<and> (\<exists>r st'.
           delete_department ''000000000000000000000001'' sample_store = (Inr r, st')
         \<and> employees_updated r = 2
         \<and> map (\<lambda>e. (doc_id e, doc_fields e ''department_id'')) (employee_collection st')
             = [(0x11, Some Null), (0x12, Some Null), (0x13, Some (Str ''0000000000000000000000ff''))]
         \<and> department_collection st' = [dept_sales])"
proof -
  have h1: "ObjectId ''000000000000000000000001'' = Inr 1"
    by (simp add: ObjectId_def hex_val_def)
  have h2: "find_one (department_collection sample_store) 1 = Some dept_eng"
    by (simp add: find_one_def sample_store_def dept_eng_def)
  have h3: "\<forall>e \<in> set (employee_collection sample_store). text_field ''department_id'' e"
    by (simp add: sample_store_def text_field_def emp_ana_def emp_bia_def emp_caio_def)
  have h4: "length (filter (\<lambda>e. doc_fields e ''department_id'' = Some (Str ''000000000000000000000001''))
               (employee_collection sample_store)) = 2"
    by (simp add: sample_store_def emp_ana_def emp_bia_def emp_caio_def)
  from delete_clears_references [OF h1 h2 h3 h4]
  obtain r st' where r:
      "delete_department ''000000000000000000000001'' sample_store = (Inr r, st')"
      "employees_updated r = 2"
      "employee_collection st'
         = map (\<lambda>e. if doc_fields e ''department_id'' = Some (Str ''000000000000000000000001'')
                     then e\<lparr>doc_fields := (doc_fields e)(''department_id'' \<mapsto> Null)\<rparr>
                     else e)
             (employee_collection sample_store)"
      "department_collection st' = remove1 dept_eng (department_collection sample_store)"
    by blast
  have emps: "map (\<lambda>e. (doc_id e, doc_fields e ''department_id'')) (employee_collection st')
             = [(0x11, Some Null), (0x12, Some Null), (0x13, Some (Str ''0000000000000000000000ff''))]"
    unfolding r(3)
    by (simp add: sample_store_def emp_ana_def emp_bia_def emp_caio_def)
  have depts: "department_collection st' = [dept_sales]"
    unfolding r(4) by (simp add: sample_store_def)
  from r(1,2) emps depts have "\<exists>r st'.
           delete_department ''000000000000000000000001'' sample_store = (Inr r, st')
         \<and> employees_updated r = 2
         \<and> map (\<lambda>e. (doc_id e, doc_fields e ''department_id'')) (employee_collection st')
             = [(0x11, Some Null), (0x12, Some Null), (0x13, Some (Str ''0000000000000000000000ff''))]
         \<and> department_collection st' = [dept_sales]"
    by (intro exI conjI)
  moreover from h3 have "list_all (text_field ''department_id'') (employee_collection sample_store)"
    by (simp only: list_all_iff)
  ultimately show ?thesis
    using h1 h2 h4 by (intro conjI)
qed

section \<open>Search by name\<close>

lemma compile_regex_plain:
  "set q \<inter> set regex_meta = {} \<Longrightarrow> compile_regex q = Some (map Lit q)"
proof (induction q)
  case Nil
  show ?case by simp
next
  case (Cons c q)
  from Cons.prems have c: "c \<notin> set regex_meta" and q: "set q \<inter> set regex_meta = {}"
    by auto
  from c have "c \<noteq> CHR ''.''"
    by (auto simp: regex_meta_def)
  with c Cons.IH [OF q] show ?case
    by simp
qed

lemma match_here_Lit: "match_here (map Lit q) t = prefix (map lower q) (map lower t)"
proof (induction q arbitrary: t)
  case Nil
  show ?case by simp
next
  case (Cons c q)
  then show ?case
    by (cases t) auto
qed

lemma regex_search_Lit: "regex_search (map Lit q) t = sublist (map lower q) (map lower t)"
proof (induction t)
  case Nil
  show ?case
    by (cases q) (simp_all add: match_here_Lit)
next
  case (Cons c t)
  then show ?case
    by (simp add: match_here_Lit sublist_Cons_right)
qed

lemma field_regex_name:
  "text_field ''name'' d \<Longrightarrow> field_regex ''name'' (map Lit q) d = name_contains q d"
  by (auto simp: text_field_def field_regex_def name_contains_def regex_search_Lit
           split: option.splits val.splits)

text \<open>
  C7, the claim as it is written, fails: the query is a regular expression, not a piece
  of text. The query \<open>.\<close> on the sample store returns both departments, and neither
  name contains a dot.
\<close>

theorem find_by_name_dot_counterexample:
  "get_departments_by_name ''.'' 0 10 sample_store = Some (Inr [str_id dept_eng, str_id dept_sales])
   \<and> filter (name_contains ''.'') (department_collection sample_store) = []"
proof -
  have c: "compile_regex ''.'' = Some [AnyChar]"
    by simp
  have m: "filter (field_regex ''name'' [AnyChar]) (department_collection sample_store)
             = [dept_eng, dept_sales]"
    by (simp add: sample_store_def dept_eng_def dept_sales_def field_regex_def)
  have p: "skip_limit_to_list 0 10 [dept_eng, dept_sales] = Inr [dept_eng, dept_sales]"
    by (simp add: skip_limit_to_list_page)
  have r: "get_departments_by_name ''.'' 0 10 sample_store
             = Some (Inr [str_id dept_eng, str_id dept_sales])"
    unfolding get_departments_by_name_def c by (simp add: m p)
  have n: "filter (name_contains ''.'') (department_collection sample_store) = []"
    by (simp add: sample_store_def dept_eng_def dept_sales_def name_contains_def lower_def
          sublist_code prefix_code)
  from r n show ?thesis
    by simp
qed

text \<open>
  C7, amended. For every query string that holds no character of the regular-expression
  syntax, every \<open>skip \<ge> 0\<close> and \<open>limit \<ge> 0\<close>, and every store whose departments have a
  text name, \<open>get_departments_by_name\<close> succeeds and returns the page of at most
  \<open>limit\<close> records from offset \<open>skip\<close> of exactly the Departments whose name contains the
  query as a case-insensitive substring. The instance that follows: the query \<open>engine\<close> finds the
  department named \<open>Engineering\<close>, and only it.
\<close>

theorem find_by_name_plain_query:
  assumes "set q \<inter> set regex_meta = {}"
    and "0 \<le> sk" and "0 \<le> lim"
    and "\<forall>d \<in> set (department_collection st). text_field ''name'' d"
  shows "get_departments_by_name q sk lim st
           = Some (Inr (map str_id (take (nat lim) (drop (nat sk)
                 (filter (name_contains q) (department_collection st))))))"
proof -
  have "filter (field_regex ''name'' (map Lit q)) (department_collection st)
          = filter (name_contains q) (department_collection st)"
    using assms(4) by (intro filter_cong refl) (simp add: field_regex_name)
  then show ?thesis
    by (simp add: get_departments_by_name_def compile_regex_plain [OF assms(1)]
          skip_limit_to_list_page [OF assms(2,3)])
qed

theorem find_by_name_plain_query_witness:
  "set ''engine'' \<inter> set regex_meta = {}
   \<and> (0::int) \<le> 0 \<and> (0::int) \<le> 10
   \<and> list_all (text_field ''name'') (department_collection sample_store)
   \<and> doc_fields dept_eng ''name'' = Some (Str ''Engineering'')
   \<and> get_departments_by_name ''engine'' 0 10 sample_store = Some (Inr [str_id dept_eng])"
proof -
  have h1: "set ''engine'' \<inter> set regex_meta = {}"
    by (simp add: regex_meta_def)
  have h4: "\<forall>d \<in> set (department_collection sample_store). text_field ''name'' d"
    by (simp add: sample_store_def dept_eng_def dept_sales_def text_field_def)
  have n: "filter (name_contains ''engine'') (department_collection sample_store) = [dept_eng]"
    by (simp add: sample_store_def dept_eng_def dept_sales_def name_contains_def lower_def
          sublist_code prefix_code)
  have r: "get_departments_by_name ''engine'' 0 10 sample_store = Some (Inr [str_id dept_eng])"
    using find_by_name_plain_query [OF h1 _ _ h4, of 0 10] by (simp add: n)
  have l: "list_all (text_field ''name'') (department_collection sample_store)"
    using h4 by (simp only: list_all_iff)
  have e: "doc_fields dept_eng ''name'' = Some (Str ''Engineering'')"
    by (simp add: dept_eng_def)
  from h1 l e r show ?thesis
    by simp
qed

section \<open>The join of departments, employees and benefits\<close>

lemma benefit_ids_parse_all:
  "list_all (\<lambda>bid. \<not> isl (ObjectId bid)) bids \<Longrightarrow>
   \<exists>ids. benefit_ids bids = Inr ids
       \<and> (\<forall>i. i \<in> set ids \<longleftrightarrow> list_ex (\<lambda>bid. ObjectId bid = Inr i) bids)"
proof (induction bids)
  case Nil
  show ?case by simp
next
  case (Cons bid bids)
  from Cons.prems obtain i where i: "ObjectId bid = Inr i"
    by (cases "ObjectId bid") auto
  from Cons.prems Cons.IH obtain ids where ids: "benefit_ids bids = Inr ids"
      "\<forall>j. j \<in> set ids \<longleftrightarrow> list_ex (\<lambda>bid. ObjectId bid = Inr j) bids"
    by auto
  have "benefit_ids (bid # bids) = Inr (i # ids)"
    by (simp add: i ids(1))
  moreover have "\<forall>j. j \<in> set (i # ids) \<longleftrightarrow> list_ex (\<lambda>b. ObjectId b = Inr j) (bid # bids)"
    using i ids(2) by auto
  ultimately show ?case
    by blast
qed

lemma find_in_cong:
  "(\<And>i. i \<in> set ids \<longleftrightarrow> P i) \<Longrightarrow> find_in coll ids = filter (\<lambda>b. P (doc_id b)) coll"
  by (simp add: find_in_def)

lemma enrich_employee_resolved:
  assumes "benefit_ids_parse emp"
  shows "enrich_employee st emp = Inr (resolved_employee st emp)"
proof (cases "doc_fields emp ''benefits_id''")
  case None
  then show ?thesis
    by (simp add: enrich_employee_def get_benefits_id_def resolved_employee_def
          resolved_benefits_def held_benefit_ids_def find_in_def)
next
  case (Some v)
  with assms obtain bids where v: "v = StrList bids"
      and ok: "list_all (\<lambda>bid. \<not> isl (ObjectId bid)) bids"
    by (cases v) (auto simp: benefit_ids_parse_def)
  from benefit_ids_parse_all [OF ok] obtain ids where ids: "benefit_ids bids = Inr ids"
      "\<And>i. i \<in> set ids \<longleftrightarrow> list_ex (\<lambda>bid. ObjectId bid = Inr i) bids"
    by blast
  have "find_in (benefit_collection st) ids
          = filter (\<lambda>b. list_ex (\<lambda>bid. ObjectId bid = Inr (doc_id b)) bids) (benefit_collection st)"
    by (rule find_in_cong) (rule ids(2))
  then show ?thesis
    by (simp add: enrich_employee_def get_benefits_id_def resolved_employee_def
          resolved_benefits_def held_benefit_ids_def Some v ids(1))
qed

lemma enrich_employees_resolved:
  "\<forall>emp \<in> set emps. benefit_ids_parse emp \<Longrightarrow>
   enrich_employees st emps = Inr (map (resolved_employee st) emps)"
  by (induction emps) (simp_all add: enrich_employee_resolved)

lemma full_info_loop_resolved:
  assumes "\<And>dep. dep \<in> set deps \<Longrightarrow> department_full_info st dep = Inr (f dep)"
  shows "full_info_loop st deps = Inr (map f deps)"
  using assms by (induction deps) simp_all

text \<open>
  C3, the claim as it is written, fails. An employee of the department \<open>Engineering\<close>
  holds two benefit identifiers: that of an existing Benefit, and the string
  \<open>not-an-id\<close>, which does not parse. The join does not discard the second and return
  the first: \<open>ObjectId\<close> raises, and the whole request fails with status 500.
\<close>

theorem full_info_bad_benefit_id_counterexample:
  "doc_fields emp_davi ''benefits_id'' = Some (StrList [''000000000000000000000021'', ''not-an-id''])
   \<and> get_departments_with_employees_and_benefits store_with_bad_benefit_id
       = Inl (HTTPException 500)"
proof -
  have s1: "str 1 = ''000000000000000000000001''"
    by (simp add: str_def hex_digit_def to_hex_pos)
  have o1: "ObjectId ''000000000000000000000021'' = Inr 0x21"
    by (simp add: ObjectId_def hex_val_def)
  have o2: "ObjectId ''not-an-id'' = Inl InvalidId"
    by (simp add: ObjectId_def)
  have b: "benefit_ids [''000000000000000000000021'', ''not-an-id''] = Inl InvalidId"
    by (simp add: o1 o2)
  have e: "enrich_employee store_with_bad_benefit_id emp_davi = Inl InvalidId"
    by (simp add: enrich_employee_def get_benefits_id_def emp_davi_def o1 o2)
  have i: "doc_id dept_eng = 1"
    by (simp add: dept_eng_def)
  have ec: "employee_collection store_with_bad_benefit_id = [emp_davi]"
    by (simp add: store_with_bad_benefit_id_def)
  have fe: "field_eq ''department_id'' ''000000000000000000000001'' emp_davi"
    by (simp add: emp_davi_def field_eq_def)
  have m: "filter (field_eq ''department_id'' (str (doc_id dept_eng)))
             (employee_collection store_with_bad_benefit_id) = [emp_davi]"
    unfolding i s1 ec using fe by simp
  have d: "department_full_info store_with_bad_benefit_id dept_eng = Inl InvalidId"
    unfolding department_full_info_def Let_def m by (simp add: e)
  have dc: "department_collection store_with_bad_benefit_id = [dept_eng, dept_sales]"
    by (simp add: store_with_bad_benefit_id_def)
  have l: "full_info_loop store_with_bad_benefit_id
             (department_collection store_with_bad_benefit_id) = Inl InvalidId"
    unfolding dc by (simp add: d)
  have r: "get_departments_with_employees_and_benefits store_with_bad_benefit_id
       = Inl (HTTPException 500)"
    by (simp add: get_departments_with_employees_and_benefits_def l)
  have f: "doc_fields emp_davi ''benefits_id''
       = Some (StrList [''000000000000000000000021'', ''not-an-id''])"
    by (simp add: emp_davi_def)
  from f r show ?thesis
    by simp
qed

text \<open>
  C3, amended. For every store in which each department has a name and each employee of
  a department holds only benefit identifiers that parse (its \<open>benefits_id\<close> is absent
  or a collection of such strings), the join succeeds: it lists every department with
  the employees whose \<open>department_id\<close> is the department's identifier string, and gives
  each employee exactly the Benefit records whose identifier is one of those it holds.
  An identifier that matches no Benefit is discarded and raises nothing. The instance:
  an employee holding the identifiers of one existing and one missing Benefit gets
  exactly one resolved benefit.
\<close>

theorem full_info_resolves_benefits:
  assumes "\<forall>dep \<in> set (department_collection st). doc_fields dep ''name'' \<noteq> None"
    and "\<forall>dep \<in> set (department_collection st). \<forall>emp \<in> set (employee_collection st).
           field_eq ''department_id'' (str (doc_id dep)) emp \<longrightarrow> benefit_ids_parse emp"
  shows "get_departments_with_employees_and_benefits st =
           Inr (map (\<lambda>dep.
                  \<lparr>department_id = str (doc_id dep),
                   department_name = (case doc_fields dep ''name'' of None \<Rightarrow> Null | Some n \<Rightarrow> n),
                   dept_location = (case doc_fields dep ''location'' of None \<Rightarrow> Null | Some l \<Rightarrow> l),
                   employees = map (resolved_employee st)
                     (filter (field_eq ''department_id'' (str (doc_id dep))) (employee_collection st))\<rparr>)
                (department_collection st))"
proof -
  let ?f = "\<lambda>dep.
                  \<lparr>department_id = str (doc_id dep),
                   department_name = (case doc_fields dep ''name'' of None \<Rightarrow> Null | Some n \<Rightarrow> n),
                   dept_location = (case doc_fields dep ''location'' of None \<Rightarrow> Null | Some l \<Rightarrow> l),
                   employees = map (resolved_employee st)
                     (filter (field_eq ''department_id'' (str (doc_id dep))) (employee_collection st))\<rparr>"
  have one: "department_full_info st dep = Inr (?f dep)"
    if dep: "dep \<in> set (department_collection st)" for dep
  proof -
    let ?emps = "filter (field_eq ''department_id'' (str (doc_id dep))) (employee_collection st)"
    from assms(2) dep have "\<forall>emp \<in> set ?emps. benefit_ids_parse emp"
      by auto
    then have e: "enrich_employees st ?emps = Inr (map (resolved_employee st) ?emps)"
      by (rule enrich_employees_resolved)
    from assms(1) dep obtain n where n: "doc_fields dep ''name'' = Some n"
      by auto
    show ?thesis
      unfolding department_full_info_def Let_def e by (simp add: n)
  qed
  have "full_info_loop st (department_collection st) = Inr (map ?f (department_collection st))"
    by (rule full_info_loop_resolved) (rule one)
  then show ?thesis
    by (simp add: get_departments_with_employees_and_benefits_def)
qed

theorem full_info_resolves_benefits_witness:
  "list_all (\<lambda>dep. doc_fields dep ''name'' \<noteq> None) (department_collection sample_store)
   \<and> list_all benefit_ids_parse (employee_collection sample_store)
   \<and> held_benefit_ids emp_ana = [''000000000000000000000021'', ''000000000000000000000022'']
   \<and> map doc_id (benefit_collection sample_store) = [0x21]
   \<and> (\<exists>info. get_departments_with_employees_and_benefits sample_store = Inr info
        \<and> map (\<lambda>d. (department_name d, map (\<lambda>e. (doc_id e, map doc_id (benefits e))) (employees d))) info
            = [(Str ''Engineering'',
                  [(''000000000000000000000011'', [''000000000000000000000021'']),
                   (''000000000000000000000012'', [])]),
               (Str ''Sales'', [])])"
proof -
  have h1: "\<forall>dep \<in> set (department_collection sample_store). doc_fields dep ''name'' \<noteq> None"
    by (simp add: sample_store_def dept_eng_def dept_sales_def)
  have o: "ObjectId ''000000000000000000000021'' = Inr 0x21"
      "ObjectId ''000000000000000000000022'' = Inr 0x22"
    by (simp_all add: ObjectId_def hex_val_def)
  have p: "\<forall>emp \<in> set (employee_collection sample_store). benefit_ids_parse emp"
    by (simp add: sample_store_def emp_ana_def emp_bia_def emp_caio_def benefit_ids_parse_def o)
  then have h2: "\<forall>dep \<in> set (department_collection sample_store).
           \<forall>emp \<in> set (employee_collection sample_store).
           field_eq ''department_id'' (str (doc_id dep)) emp \<longrightarrow> benefit_ids_parse emp"
    by blast
  have s: "str 1 = ''000000000000000000000001''" "str 2 = ''000000000000000000000002''"
      "str 0x11 = ''000000000000000000000011''" "str 0x12 = ''000000000000000000000012''"
      "str 0x21 = ''000000000000000000000021''"
    by (simp_all add: str_def hex_digit_def to_hex_pos)
  have ec: "employee_collection sample_store = [emp_ana, emp_bia, emp_caio]"
    by (simp add: sample_store_def)
  have fe: "field_eq ''department_id'' ''000000000000000000000001'' emp_ana"
      "field_eq ''department_id'' ''000000000000000000000001'' emp_bia"
      "\<not> field_eq ''department_id'' ''000000000000000000000001'' emp_caio"
      "\<not> field_eq ''department_id'' ''000000000000000000000002'' emp_ana"
      "\<not> field_eq ''department_id'' ''000000000000000000000002'' emp_bia"
      "\<not> field_eq ''department_id'' ''000000000000000000000002'' emp_caio"
    by (simp_all add: emp_ana_def emp_bia_def emp_caio_def field_eq_def)
  have m1: "filter (field_eq ''department_id'' ''000000000000000000000001'')
              (employee_collection sample_store) = [emp_ana, emp_bia]"
    unfolding ec using fe by simp
  have m2: "filter (field_eq ''department_id'' ''000000000000000000000002'')
              (employee_collection sample_store) = []"
    unfolding ec using fe by simp
  have bc: "benefit_collection sample_store = [benefit_health]"
    by (simp add: sample_store_def)
  have bh: "doc_id benefit_health = 0x21"
    by (simp add: benefit_health_def)
  have ha: "held_benefit_ids emp_ana = [''000000000000000000000021'', ''000000000000000000000022'']"
    by (simp add: held_benefit_ids_def emp_ana_def)
  have hb: "held_benefit_ids emp_bia = []"
    by (simp add: held_benefit_ids_def emp_bia_def)
  have ra: "map doc_id (benefits (resolved_employee sample_store emp_ana))
              = [''000000000000000000000021'']"
    by (simp add: resolved_employee_def resolved_benefits_def ha bc bh o str_id_def s)
  have rb: "map doc_id (benefits (resolved_employee sample_store emp_bia)) = []"
    by (simp add: resolved_employee_def resolved_benefits_def hb bc)
  have ia: "doc_id (resolved_employee sample_store emp_ana) = ''000000000000000000000011''"
      "doc_id (resolved_employee sample_store emp_bia) = ''000000000000000000000012''"
    by (simp_all add: resolved_employee_def emp_ana_def emp_bia_def s)
  have di: "doc_id dept_eng = 1" "doc_id dept_sales = 2"
      "doc_fields dept_eng ''name'' = Some (Str ''Engineering'')"
      "doc_fields dept_sales ''name'' = Some (Str ''Sales'')"
    by (simp_all add: dept_eng_def dept_sales_def)
  have dc: "department_collection sample_store = [dept_eng, dept_sales]"
    by (simp add: sample_store_def)
  note r = full_info_resolves_benefits [OF h1 h2]
  have "\<exists>info. get_departments_with_employees_and_benefits sample_store = Inr info
        \<and> map (\<lambda>d. (department_name d, map (\<lambda>e. (doc_id e, map doc_id (benefits e))) (employees d))) info
            = [(Str ''Engineering'',
                  [(''000000000000000000000011'', [''000000000000000000000021'']),
                   (''000000000000000000000012'', [])]),
               (Str ''Sales'', [])]"
    unfolding r dc by (simp add: di s m1 m2 ra rb ia)
  moreover have "list_all (\<lambda>dep. doc_fields dep ''name'' \<noteq> None) (department_collection sample_store)"
    using h1 by (simp only: list_all_iff)
  moreover have "list_all benefit_ids_parse (employee_collection sample_store)"
    using p by (simp only: list_all_iff)
  moreover note ha
  moreover have "map doc_id (benefit_collection sample_store) = [0x21]"
    by (simp add: bc bh)
  ultimately show ?thesis
    by (intro conjI)
qed

end
